theory Spec2Isabelle
  imports Main "HOL-Library.Sublist"
begin

section \<open>Text and the Go library\<close>

text \<open>
  A Go string is modelled by the sequence of runes (Unicode code points) that the
  \<^verbatim>\<open>range\<close> loop, package \<^verbatim>\<open>strings\<close> and package \<^verbatim>\<open>regexp\<close> read from it. For text
  that is valid UTF-8 this is the string itself; the literals of the program are ASCII.
\<close>

type_synonym rune = nat
type_synonym gostring = "rune list"

definition str :: "string \<Rightarrow> gostring" where
  "str s = map of_char s"

subsection \<open>Package unicode\<close>

definition unicode_IsSpace :: "rune \<Rightarrow> bool" where
  \<comment> \<open>Latin-1 is special-cased, the rest is the White\_Space table.\<close>
  "unicode_IsSpace r =
     (if r \<le> 0xFF
      then r = 9 \<or> r = 10 \<or> r = 11 \<or> r = 12 \<or> r = 13 \<or> r = 32 \<or> r = 0x85 \<or> r = 0xA0
      else r = 0x1680 \<or> (0x2000 \<le> r \<and> r \<le> 0x200A) \<or> r = 0x2028 \<or> r = 0x2029
           \<or> r = 0x202F \<or> r = 0x205F \<or> r = 0x3000)"

definition unicode_IsPrint :: "(rune \<Rightarrow> bool) \<Rightarrow> rune \<Rightarrow> bool" where
  \<comment> \<open>Latin-1 is read from the property table of package unicode: the printable runes
      are U+0020 to U+007E and U+00A1 to U+00FF without the soft hyphen U+00AD. Beyond
      Latin-1 the answer is a lookup in the range tables of the categories L, M, N, P
      and S, which are data of the Go library: the lookup is the parameter \<open>tab\<close>.\<close>
  "unicode_IsPrint tab r =
     (if r \<le> 0xFF
      then (0x20 \<le> r \<and> r \<le> 0x7E) \<or> (0xA1 \<le> r \<and> r \<noteq> 0xAD)
      else tab r)"

subsection \<open>Package strings\<close>

definition HasPrefix :: "gostring \<Rightarrow> gostring \<Rightarrow> bool" where
  "HasPrefix s p = prefix p s"

definition HasSuffix :: "gostring \<Rightarrow> gostring \<Rightarrow> bool" where
  "HasSuffix s p = suffix p s"

definition TrimSpace :: "gostring \<Rightarrow> gostring" where
  "TrimSpace s = rev (dropWhile unicode_IsSpace (rev (dropWhile unicode_IsSpace s)))"

fun Index :: "gostring \<Rightarrow> gostring \<Rightarrow> nat option" where
  "Index [] sep = (if sep = [] then Some 0 else None)"
| "Index (c # cs) sep =
     (if prefix sep (c # cs) then Some 0 else map_option Suc (Index cs sep))"

fun SplitN :: "gostring \<Rightarrow> gostring \<Rightarrow> nat \<Rightarrow> gostring list" where
  \<comment> \<open>\<^verbatim>\<open>strings.SplitN(s, sep, n)\<close> for a separator that is not empty and \<open>n \<ge> 0\<close>: at
      most \<open>n\<close> pieces, the last one being the unsplit rest.\<close>
  "SplitN s sep 0 = []"
| "SplitN s sep (Suc 0) = [s]"
| "SplitN s sep (Suc (Suc n)) =
     (case Index s sep of
        None \<Rightarrow> [s]
      | Some i \<Rightarrow> take i s # SplitN (drop (i + length sep) s) sep (Suc n))"

definition ReplaceAll_rune :: "gostring \<Rightarrow> rune \<Rightarrow> gostring \<Rightarrow> gostring" where
  \<comment> \<open>\<^verbatim>\<open>strings.ReplaceAll(s, old, new)\<close> where \<open>old\<close> is the one-rune string \<open>[c]\<close>.\<close>
  "ReplaceAll_rune s c new = concat (map (\<lambda>x. if x = c then new else [x]) s)"

subsection \<open>Package fmt\<close>

datatype error = errors_New gostring

fun Error :: "error \<Rightarrow> gostring" where
  "Error (errors_New m) = m"

definition Errorf_w :: "gostring \<Rightarrow> error \<Rightarrow> error" where
  \<comment> \<open>\<^verbatim>\<open>fmt.Errorf(p + "%w", err)\<close> for a literal \<open>p\<close> without verbs: the message of the
      new error is \<open>p\<close> followed by the message of the wrapped one.\<close>
  "Errorf_w p err = errors_New (p @ Error err)"

datatype arg = StringArg gostring | IntArg int | ErrorArg error

fun digits :: "nat \<Rightarrow> gostring" where
  "digits n = (if n < 10 then [48 + n] else digits (n div 10) @ [48 + n mod 10])"

declare digits.simps [simp del]

definition fmt_d :: "int \<Rightarrow> gostring" where
  "fmt_d i = (if i < 0 then 45 # digits (nat (- i)) else digits (nat i))"

definition missing :: "rune \<Rightarrow> gostring" where
  \<comment> \<open>What a verb prints when no operand is left: \<^verbatim>\<open>%!v(MISSING)\<close>.\<close>
  "missing v = [37, 33, v] @ str ''(MISSING)''"

record lib =
  fmt_directive :: "gostring \<Rightarrow> arg list \<Rightarrow> nat \<Rightarrow> bool \<Rightarrow> gostring \<times> nat \<times> nat \<times> bool"
    \<comment> \<open>A directive of \<^verbatim>\<open>fmt\<close> that is not written out below (flags, widths, operand
        indexes, the verb \<^verbatim>\<open>%q\<close> and the other verbs, an operand of another type):
        from the format behind the percent sign, the operands, the number of the next
        operand and the flag \<^verbatim>\<open>reordered\<close>, it gives the output of the directive, the
        number of runes of the format that the directive takes behind the percent sign,
        and the new operand number and flag.\<close>
  fmt_extra :: "arg list \<Rightarrow> gostring"
    \<comment> \<open>the text \<^verbatim>\<open>%!(EXTRA ...)\<close> that reports the operands left over\<close>
  conn_room :: "gostring \<Rightarrow> gostring \<Rightarrow> nat option"
    \<comment> \<open>For a target and a text, the number of runes of the text that the connection
        keeps when it builds the line (all of them when the line is not too long;
        \<^verbatim>\<open>AllowTruncation\<close> is set); \<open>None\<close> when the connection sends nothing for a reason
        of its own: it is not connected, or it refuses the target.\<close>

function Sprintf_from :: "lib \<Rightarrow> gostring \<Rightarrow> arg list \<Rightarrow> nat \<Rightarrow> bool \<Rightarrow> gostring" where
  \<comment> \<open>The loop of \<^verbatim>\<open>fmt.Sprintf(format, a...)\<close> from a position of the format, with the
      number \<open>n\<close> of the next operand and the flag \<open>r\<close> (\<^verbatim>\<open>reordered\<close>). Text is copied up
      to the next percent sign (the rune 37). Written out are \<^verbatim>\<open>%%\<close>, a percent sign
      at the end of the format, \<^verbatim>\<open>%s\<close> (115) of a string or an error, \<^verbatim>\<open>%d\<close> (100) of an
      integer, and these two verbs with no operand left; every other directive is
      \<open>fmt_directive\<close>. At the end the operands left over are reported.\<close>
  "Sprintf_from L [] a n r = (if \<not> r \<and> n < length a then fmt_extra L (drop n a) else [])"
| "Sprintf_from L (c # cs) a n r =
     (if c = 37 then
        (case cs of
           [] \<Rightarrow> str ''%!(NOVERB)''
         | v # rest \<Rightarrow>
             if v = 37 then 37 # Sprintf_from L rest a n r
             else if (v = 115 \<or> v = 100) \<and> length a \<le> n then
               missing v @ Sprintf_from L rest a n r
             else
               (case (if n < length a then Some (a ! n) else None) of
                  Some (StringArg x) \<Rightarrow>
                    if v = 115 then x @ Sprintf_from L rest a (Suc n) r
                    else (case fmt_directive L cs a n r of
                            (out, k, n', r') \<Rightarrow> out @ Sprintf_from L (drop k cs) a n' r')
                | Some (ErrorArg e) \<Rightarrow>
                    if v = 115 then Error e @ Sprintf_from L rest a (Suc n) r
                    else (case fmt_directive L cs a n r of
                            (out, k, n', r') \<Rightarrow> out @ Sprintf_from L (drop k cs) a n' r')
                | Some (IntArg i) \<Rightarrow>
                    if v = 100 then fmt_d i @ Sprintf_from L rest a (Suc n) r
                    else (case fmt_directive L cs a n r of
                            (out, k, n', r') \<Rightarrow> out @ Sprintf_from L (drop k cs) a n' r')
                | None \<Rightarrow>
                    (case fmt_directive L cs a n r of
                       (out, k, n', r') \<Rightarrow> out @ Sprintf_from L (drop k cs) a n' r')))
      else c # Sprintf_from L cs a n r)"
  by pat_completeness auto
termination
  by (relation "measure (\<lambda>(L, f, a, n, r). length f)") auto

definition Sprintf :: "lib \<Rightarrow> gostring \<Rightarrow> arg list \<Rightarrow> gostring" where
  "Sprintf L format a = Sprintf_from L format a 0 False"

subsection \<open>Package regexp\<close>

text \<open>
  A regular expression is embedded as the function that maps a text to the rests left
  over by every way of matching a prefix of it, the preferred match first. The
  expressions of the program are built from literals, the dot, one character class,
  the optional group and the counted repetition of a class.
\<close>

type_synonym regexp = "gostring \<Rightarrow> gostring list"

definition re_lit :: "gostring \<Rightarrow> regexp" where
  "re_lit l s = (if prefix l s then [drop (length l) s] else [])"

definition re_class :: "(rune \<Rightarrow> bool) \<Rightarrow> regexp" where
  "re_class p s = (case s of [] \<Rightarrow> [] | c # cs \<Rightarrow> if p c then [cs] else [])"

definition re_dot :: regexp where
  \<comment> \<open>The dot matches any rune but the newline.\<close>
  "re_dot = re_class (\<lambda>c. c \<noteq> 10)"

definition re_seq :: "regexp \<Rightarrow> regexp \<Rightarrow> regexp" where
  "re_seq a b s = concat (map b (a s))"

definition re_opt :: "regexp \<Rightarrow> regexp" where
  \<comment> \<open>\<^verbatim>\<open>(?:a)?\<close> prefers to match.\<close>
  "re_opt a s = a s @ [s]"

definition re_at_least :: "nat \<Rightarrow> (rune \<Rightarrow> bool) \<Rightarrow> regexp" where
  \<comment> \<open>\<^verbatim>\<open>[class]{n,}\<close>: \<open>n\<close> or more runes of the class, the longest run first.\<close>
  "re_at_least n p s =
     map (\<lambda>k. drop k s) (rev [n ..< Suc (length (takeWhile p s))])"

definition MatchString :: "regexp \<Rightarrow> gostring \<Rightarrow> bool" where
  \<comment> \<open>An expression without anchors matches when it matches at some position.\<close>
  "MatchString re s = list_ex (\<lambda>i. re (drop i s) \<noteq> []) [0 ..< Suc (length s)]"

definition alnum :: "rune \<Rightarrow> bool" where
  \<comment> \<open>\<^verbatim>\<open>[a-zA-Z0-9]\<close>\<close>
  "alnum c = ((97 \<le> c \<and> c \<le> 122) \<or> (65 \<le> c \<and> c \<le> 90) \<or> (48 \<le> c \<and> c \<le> 57))"

definition FindStringSubmatch_1 :: "regexp \<Rightarrow> regexp \<Rightarrow> gostring \<Rightarrow> gostring option" where
  \<comment> \<open>\<^verbatim>\<open>FindStringSubmatch\<close> of an expression \<^verbatim>\<open>^head(grp)$\<close>: the text of group 1, or
      \<open>None\<close> where the source reads \<^verbatim>\<open>matches == nil\<close>. The group reaches the end of
      the text, so its text is the rest that the head leaves.\<close>
  "FindStringSubmatch_1 head grp s =
     (case filter (\<lambda>r. [] \<in> set (grp r)) (head s) of
        [] \<Rightarrow> None
      | r # _ \<Rightarrow> Some r)"

fun Join :: "gostring list \<Rightarrow> gostring \<Rightarrow> gostring" where
  "Join [] sep = []"
| "Join [x] sep = x"
| "Join (x # y # ys) sep = x @ sep @ Join (y # ys) sep"

section \<open>Result rendering\<close>

definition output_suppressed :: gostring where
  "output_suppressed = str ''Output suppressed, non-printable characters detected.''"

definition ExtractFirstLine :: "(rune \<Rightarrow> bool) \<Rightarrow> gostring \<Rightarrow> gostring" where
  "ExtractFirstLine tab s =
     (let trimmed = TrimSpace (SplitN s [10] 2 ! 0);
          hasNonPrintables = list_ex (\<lambda>c. \<not> unicode_IsPrint tab c) trimmed
      in if hasNonPrintables then output_suppressed
         else ReplaceAll_rune trimmed 7 [])"

definition ExtractFirstLine_spec :: "(rune \<Rightarrow> bool) \<Rightarrow> gostring \<Rightarrow> gostring" where
  \<comment> \<open>The order of the specification: truncate, trim, strip the bell, and only then
      look for non-printable runes.\<close>
  "ExtractFirstLine_spec tab s =
     (let stripped = ReplaceAll_rune (TrimSpace (SplitN s [10] 2 ! 0)) 7 []
      in if list_ex (\<lambda>c. \<not> unicode_IsPrint tab c) stripped then output_suppressed
         else stripped)"

section \<open>Collaborators\<close>

text \<open>
  The repository holds two copies of package \<^verbatim>\<open>bot\<close>. The definitions follow the later
  one, which has the help command, the sender prefix of replies and the suppression of
  non-printable output; the handlers of the earlier copy that differ are embedded in
  the last section of the definitions, under names that start with \<open>old\<close>.
\<close>

text \<open>
  The playground client (package goplay), the import resolver (package imports), the
  HTTP client and the IRC connection are libraries outside the repository. Their
  answers are parameters of the model, and every call to them is recorded as an effect,
  in the order the calls are made. Log output is not recorded.
\<close>

record Event =
  Message :: gostring
  Kind :: gostring
  Delay :: int

record Response =
  Errors :: gostring
  Events :: "Event list"

record http_Response =
  StatusCode :: int
  Body :: "error + gostring"  \<comment> \<open>what \<^verbatim>\<open>ioutil.ReadAll(res.Body)\<close> returns\<close>

record env =
  IsPrint_table :: "rune \<Rightarrow> bool"
  imports_Process :: "gostring \<Rightarrow> bool \<Rightarrow> error + gostring"
    \<comment> \<open>source and the option \<^verbatim>\<open>FormatOnly\<close>\<close>
  goplay_Share :: "gostring \<Rightarrow> error + gostring"
  goplay_Compile :: "gostring \<Rightarrow> error + Response"
  http_Get :: "gostring \<Rightarrow> error + http_Response"
  range_commands :: "gostring list"
    \<comment> \<open>the order in which \<^verbatim>\<open>range b.commands\<close> yields the keys\<close>
  SplitNUH_nick :: "gostring \<Rightarrow> gostring"
    \<comment> \<open>the first result of \<^verbatim>\<open>ircevent.SplitNUH\<close>\<close>

datatype effect =
    Privmsg gostring gostring
  | Privmsgf gostring gostring "arg list"
  | Call_imports_Process gostring bool
  | Call_Share gostring
  | Call_Compile gostring
  | Call_http_Get gostring

datatype status = Returned | Panicked

type_synonym ReplyFunc = "gostring \<Rightarrow> arg list \<Rightarrow> effect"

fun privmsg_text :: "lib \<Rightarrow> effect \<Rightarrow> gostring option" where
  \<comment> \<open>The text that a call hands to \<^verbatim>\<open>Privmsg\<close>: \<^verbatim>\<open>Privmsgf\<close> formats its operands with
      \<^verbatim>\<open>fmt.Sprintf\<close> and calls \<^verbatim>\<open>Privmsg\<close> with the result.\<close>
  "privmsg_text L (Privmsg target msg) = Some msg"
| "privmsg_text L (Privmsgf target format a) = Some (Sprintf L format a)"
| "privmsg_text L _ = None"

definition bad_char :: "rune \<Rightarrow> bool" where
  \<comment> \<open>NUL, line feed and carriage return: a line that holds one of them is refused\<close>
  "bad_char c = (c = 0 \<or> c = 10 \<or> c = 13)"

definition transmit :: "lib \<Rightarrow> gostring \<Rightarrow> gostring \<Rightarrow> gostring option" where
  \<comment> \<open>What \<^verbatim>\<open>Privmsg(target, msg)\<close> puts on the wire as the text of the line, \<open>None\<close> when
      nothing is sent: the connection cuts a text that is too long for the line, and it
      refuses the line, sending nothing, when the text it keeps holds a line break or
      a NUL.\<close>
  "transmit L target msg =
     (case conn_room L target msg of
        None \<Rightarrow> None
      | Some k \<Rightarrow> if list_ex bad_char (take k msg) then None else Some (take k msg))"

fun sent_line :: "lib \<Rightarrow> effect \<Rightarrow> gostring option" where
  \<comment> \<open>the text of the line that a call of the connection sends, if it sends one\<close>
  "sent_line L (Privmsg target msg) = transmit L target msg"
| "sent_line L (Privmsgf target format a) = transmit L target (Sprintf L format a)"
| "sent_line L _ = None"

fun is_reply :: "effect \<Rightarrow> bool" where
  "is_reply (Privmsg target msg) = True"
| "is_reply (Privmsgf target format a) = True"
| "is_reply _ = False"

section \<open>Running code\<close>

definition snippetValidRe :: regexp where
  \<comment> \<open>\<^verbatim>\<open>[a-zA-Z0-9]{8,}(?:\.go)?\<close>\<close>
  "snippetValidRe = re_seq (re_at_least 8 alnum) (re_opt (re_lit (str ''.go'')))"

definition goplaygroundURIValidRe_head :: regexp where
  \<comment> \<open>\<^verbatim>\<open>(?:https?://)?play.golang.org/p/\<close>, the part of \<^verbatim>\<open>goplaygroundURIValidRe\<close> between
      \<^verbatim>\<open>^\<close> and the group\<close>
  "goplaygroundURIValidRe_head =
     re_seq (re_opt (re_seq (re_lit (str ''http''))
                       (re_seq (re_opt (re_lit (str ''s''))) (re_lit (str ''://'')))))
       (re_seq (re_lit (str ''play''))
          (re_seq re_dot
             (re_seq (re_lit (str ''golang''))
                (re_seq re_dot (re_lit (str ''org/p/''))))))"

definition goplaygroundURIValidRe_group :: regexp where
  \<comment> \<open>\<^verbatim>\<open>([a-zA-Z0-9]{8,}(?:\.go)?)\<close>\<close>
  "goplaygroundURIValidRe_group =
     re_seq (re_at_least 8 alnum) (re_opt (re_lit (str ''.go'')))"

definition snippetIsValid :: "gostring \<Rightarrow> bool" where
  "snippetIsValid snippet = MatchString snippetValidRe snippet"

definition format_source :: "env \<Rightarrow> gostring \<Rightarrow> bool \<Rightarrow> bool \<Rightarrow> error + gostring" where
  \<comment> \<open>The first step of \<^verbatim>\<open>runCode\<close>: \<^verbatim>\<open>codeBytes\<close> and \<^verbatim>\<open>err\<close> after the call of
      \<^verbatim>\<open>imports.Process\<close>, which is made when one of the two flags is set.\<close>
  "format_source w code doImports doFormat =
     (if doImports \<or> doFormat then imports_Process w code (\<not> doImports) else Inr code)"

definition runCode ::
  "env \<Rightarrow> gostring \<Rightarrow> bool \<Rightarrow> bool \<Rightarrow> bool
     \<Rightarrow> effect list \<times> Response option \<times> gostring \<times> error option" where
  \<comment> \<open>The result is the list of calls made and the triple the source returns: the
      response pointer (\<open>None\<close> is \<^verbatim>\<open>nil\<close>), the share value and the error.\<close>
  "runCode w code doShare doImports doFormat =
     (let eff1 =
            (if doImports \<or> doFormat then [Call_imports_Process code (\<not> doImports)]
             else [])
      in case format_source w code doImports doFormat of
           Inl err \<Rightarrow>
             (eff1, None, [],
              Some (Errorf_w (str ''could not format / imports source: '') err))
         | Inr codeBytes \<Rightarrow>
             (let share =
                    (if doShare then
                       (case goplay_Share w codeBytes of
                          Inr s \<Rightarrow> s
                        | Inl err \<Rightarrow> str ''Unable to create share link'')
                     else []);
                  eff2 = eff1 @ (if doShare then [Call_Share codeBytes] else [])
                         @ [Call_Compile codeBytes]
              in case goplay_Compile w codeBytes of
                   Inl err \<Rightarrow>
                     (eff2, None, [], Some (Errorf_w (str ''error from goplay: '') err))
                 | Inr res \<Rightarrow> (eff2, Some res, share, None)))"

section \<open>Locating a snippet\<close>

definition extractPlaySnippetID :: "gostring \<Rightarrow> error + gostring" where
  "extractPlaySnippetID source =
     (case FindStringSubmatch_1 goplaygroundURIValidRe_head goplaygroundURIValidRe_group
             source of
        Some m \<Rightarrow> Inr m
      | None \<Rightarrow>
          if snippetIsValid source then Inr source
          else Inl (errors_New (str ''invalid snippet'')))"

definition downloadPlaySnippet :: "env \<Rightarrow> gostring \<Rightarrow> effect list \<times> (error + gostring)" where
  "downloadPlaySnippet w source =
     (case extractPlaySnippetID source of
        Inl err \<Rightarrow> ([], Inl err)
      | Inr id0 \<Rightarrow>
          (let id1 = (if \<not> HasSuffix id0 (str ''.go'') then id0 @ str ''.go'' else id0);
               url = str ''https://play.golang.org'' @ str ''/p/'' @ id1
           in case http_Get w url of
                Inl err \<Rightarrow> ([Call_http_Get url], Inl err)
              | Inr res \<Rightarrow>
                  if StatusCode res = 200 then
                    (case Body res of
                       Inl err \<Rightarrow> ([Call_http_Get url], Inl err)
                     | Inr data \<Rightarrow> ([Call_http_Get url], Inr data))
                  else if StatusCode res = 404 then
                    ([Call_http_Get url], Inl (errors_New (str ''snippet does not exist'')))
                  else ([Call_http_Get url], Inl (errors_New (str ''unknown error'')))))"

section \<open>Command handlers\<close>

text \<open>
  A handler returns the calls it makes, in order, and how it ends: it returns, or it
  panics (a nil pointer is dereferenced, an index is out of range). A panic ends the
  process, since nothing in the program recovers from it.
\<close>

definition builtUp :: "gostring \<Rightarrow> gostring" where
  \<comment> \<open>The program that \<^verbatim>\<open>EvalCmd\<close> builds around its argument: the raw string literal
      of the source with \<^verbatim>\<open>%s\<close> replaced (10 is the newline, 9 the tab).\<close>
  "builtUp args = [10, 9] @ str ''package main'' @ [10, 9] @ str ''func main() {''
                  @ [10, 9, 9] @ args @ [10, 9] @ str ''}'' @ [10, 9]"

definition EvalCmd :: "env \<Rightarrow> gostring \<Rightarrow> ReplyFunc \<Rightarrow> effect list \<times> status" where
  "EvalCmd w args reply =
     (if TrimSpace args = [] then ([reply (str ''Cannot eval empty code'') []], Returned)
      else
        (case runCode w (builtUp args) True True True of
              (eff, res, shareLink, err) \<Rightarrow>
                (let eff1 = eff @
                       (case err of
                          None \<Rightarrow> []
                        | Some e \<Rightarrow> [reply (str ''Error occurred: '' @ Error e) []])
                 in case res of
                      None \<Rightarrow> (eff1, Panicked)
                    | Some r \<Rightarrow>
                        if length (Errors r) \<noteq> 0 then
                          (eff1 @ [reply (TrimSpace (Errors r)) []], Returned)
                        else if length (Events r) = 0 then
                          (eff1 @ [reply (str ''Complete, but no prints'') []], Returned)
                        else
                          (let extraInfo =
                                 (if length (Events r) > 1 then
                                    str '' (First line only. ''
                                    @ fmt_d (int (length (Events r)))
                                    @ str '' events returned)''
                                  else [])
                           in (eff1 @
                               [reply (str ''%s%s : %s'')
                                  [StringArg shareLink, StringArg extraInfo,
                                   StringArg (ExtractFirstLine (IsPrint_table w)
                                                (Message (Events r ! 0)))]],
                               Returned)))))"

definition PlayRun :: "env \<Rightarrow> gostring \<Rightarrow> ReplyFunc \<Rightarrow> effect list \<times> status" where
  "PlayRun w args reply =
     (if args = [] then ([reply (str ''Cannot parse an empty link / URL'') []], Returned)
      else
        case downloadPlaySnippet w args of
          (eff0, Inl err) \<Rightarrow> (eff0, Returned)
        | (eff0, Inr code) \<Rightarrow>
            (case runCode w code False False False of
               (eff, runRes, share, Some err) \<Rightarrow>
                 (eff0 @ eff @ [reply (str ''Unable to start compile: %s'') [ErrorArg err]],
                  Returned)
             | (eff, None, share, None) \<Rightarrow> (eff0 @ eff, Panicked)
             | (eff, Some r, share, None) \<Rightarrow>
                 if length (Errors r) \<noteq> 0 then
                   (eff0 @ eff @ [reply (str ''Compile failed! '' @ TrimSpace (Errors r)) []],
                    Returned)
                 else if length (Events r) = 0 then
                   (eff0 @ eff @ [reply (str ''Complete, but no prints'') []], Returned)
                 else
                   (eff0 @ eff @
                    [reply (str ''Complete: %s'')
                       [StringArg (ExtractFirstLine (IsPrint_table w)
                                     (Message (Events r ! 0)))]],
                    Returned)))"

definition PlayCmd :: "env \<Rightarrow> gostring \<Rightarrow> ReplyFunc \<Rightarrow> effect list \<times> status" where
  "PlayCmd w args reply =
     (if args = [] then ([reply (str ''Cannot parse an empty link / URL'') []], Returned)
      else
        case downloadPlaySnippet w args of
          (eff0, Inl err) \<Rightarrow>
            (eff0 @ [reply (str ''Unable to get snippet: %s'') [ErrorArg err]], Returned)
        | (eff0, Inr code) \<Rightarrow>
            (case runCode w code False False False of
               (eff, runRes, share, Some err) \<Rightarrow>
                 (eff0 @ eff @ [reply (str ''Unable to start compile: %s'') [ErrorArg err]],
                  Returned)
             | (eff, None, share, None) \<Rightarrow> (eff0 @ eff, Panicked)
             | (eff, Some r, share, None) \<Rightarrow>
                 if length (Errors r) \<noteq> 0 then
                   (eff0 @ eff @ [reply (str ''Errors: '' @ TrimSpace (Errors r)) []],
                    Returned)
                 else (eff0 @ eff @ [reply (str ''No errors in file'') []], Returned)))"

section \<open>Dispatch\<close>

datatype Callback = Callback_EvalCmd | Callback_PlayRun | Callback_PlayCmd | Callback_HelpCmd

record Command =
  cmd_name :: gostring
  cmd_help :: gostring
  callback :: Callback
  goroutine :: bool

record Bot =
  CommandPrefix :: gostring  \<comment> \<open>\<^verbatim>\<open>b.config.CommandPrefix\<close>\<close>
  CurrentNick :: gostring  \<comment> \<open>\<^verbatim>\<open>b.irc.CurrentNick()\<close>\<close>
  commands :: "gostring \<rightharpoonup> Command"

record ircmsg_Message =
  Prefix :: gostring
  Params :: "gostring list"

definition createCommand ::
  "(gostring \<rightharpoonup> Command) \<Rightarrow> gostring \<Rightarrow> bool \<Rightarrow> Callback \<Rightarrow> gostring
     \<Rightarrow> (gostring \<rightharpoonup> Command)" where
  "createCommand m n g cb h =
     m(n \<mapsto> \<lparr>cmd_name = n, cmd_help = h, callback = cb, goroutine = g\<rparr>)"

definition init_commands :: "gostring \<rightharpoonup> Command" where
  \<comment> \<open>the registry that \<^verbatim>\<open>init\<close> builds\<close>
  "init_commands =
     createCommand
       (createCommand
          (createCommand
             (createCommand Map.empty (str ''eval'') True Callback_EvalCmd
                (str ''Evaluates the given go string. Imports are automatically resolved (stdlib only)''))
             (str ''playrun'') True Callback_PlayRun
             (str ''Runs the given play link, returning errors and output (if any)''))
          (str ''play'') True Callback_PlayCmd
          (str ''Lists any errors the given play link may have''))
       (str ''help'') False Callback_HelpCmd (str ''This output.'')"

definition HelpCmd :: "env \<Rightarrow> Bot \<Rightarrow> gostring \<Rightarrow> ReplyFunc \<Rightarrow> effect list \<times> status" where
  "HelpCmd w b args0 reply =
     (let args = TrimSpace args0
      in if args = [] then
           ([reply (str ''Available Commands (use %shelp $cmd for more info): %s'')
               [StringArg (CommandPrefix b),
                StringArg (Join (range_commands w) (str '', ''))]],
            Returned)
         else
           case commands b args of
             None \<Rightarrow> ([reply (str ''Unknown command %q'') [StringArg args]], Returned)
           | Some cmd \<Rightarrow>
               ([reply (str ''Help for %q: %s'')
                   [StringArg (cmd_name cmd), StringArg (cmd_help cmd)]],
                Returned))"

definition replyFunc :: "gostring \<Rightarrow> gostring \<Rightarrow> ReplyFunc" where
  \<comment> \<open>the closure that \<^verbatim>\<open>onPrivmsg\<close> builds over \<^verbatim>\<open>replyTarget\<close> and \<^verbatim>\<open>sourceNick\<close>\<close>
  "replyFunc replyTarget sourceNick s a =
     (if length a = 0 then Privmsg replyTarget s
      else Privmsgf replyTarget (str ''('' @ sourceNick @ str '') '' @ s) a)"

datatype dispatch =
    Ignored  \<comment> \<open>the handler returns without calling anything\<close>
  | IndexPanic  \<comment> \<open>an index or slice bound is out of range\<close>
  | Invoke Command gostring gostring gostring
      \<comment> \<open>the command, \<^verbatim>\<open>rest\<close>, \<^verbatim>\<open>replyTarget\<close> and \<^verbatim>\<open>sourceNick\<close>\<close>

definition parse_command :: "Bot \<Rightarrow> gostring \<Rightarrow> (gostring \<times> gostring) option" where
  \<comment> \<open>The two branches that compute \<^verbatim>\<open>command\<close> and \<^verbatim>\<open>rest\<close>; \<open>None\<close> where
      \<^verbatim>\<open>split[1]\<close> or the slice of \<^verbatim>\<open>split[0]\<close> is out of range.\<close>
  "parse_command b msgContent =
     (if HasPrefix msgContent (CurrentNick b) then
        (let split = SplitN msgContent (str '' '') 3
         in if length split < 2 then None
            else Some (split ! 1, if length split > 2 then split ! 2 else []))
      else
        (let split = SplitN msgContent (str '' '') 2
         in if length (split ! 0) < length (CommandPrefix b) then None
            else Some (drop (length (CommandPrefix b)) (split ! 0),
                       if length split > 1 then split ! 1 else [])))"

definition onPrivmsg :: "env \<Rightarrow> Bot \<Rightarrow> ircmsg_Message \<Rightarrow> dispatch" where
  "onPrivmsg w b msg =
     (if length (Params msg) < 2 then IndexPanic
      else
        (let sourceNick = SplitNUH_nick w (Prefix msg);
             replyTarget =
               (if Params msg ! 0 = CurrentNick b then SplitNUH_nick w (Prefix msg)
                else Params msg ! 0);
             msgContent = Params msg ! 1
         in if \<not> HasPrefix msgContent (CommandPrefix b)
               \<and> \<not> HasPrefix msgContent (CurrentNick b)
            then Ignored
            else
              case parse_command b msgContent of
                None \<Rightarrow> IndexPanic
              | Some (command, rest) \<Rightarrow>
                  (case commands b command of
                     None \<Rightarrow> Ignored
                   | Some cmd \<Rightarrow> Invoke cmd rest replyTarget sourceNick)))"

definition run_callback ::
  "env \<Rightarrow> Bot \<Rightarrow> Callback \<Rightarrow> gostring \<Rightarrow> ReplyFunc \<Rightarrow> effect list \<times> status" where
  "run_callback w b cb rest reply =
     (case cb of
        Callback_EvalCmd \<Rightarrow> EvalCmd w rest reply
      | Callback_PlayRun \<Rightarrow> PlayRun w rest reply
      | Callback_PlayCmd \<Rightarrow> PlayCmd w rest reply
      | Callback_HelpCmd \<Rightarrow> HelpCmd w b rest reply)"

definition serve :: "env \<Rightarrow> Bot \<Rightarrow> ircmsg_Message \<Rightarrow> effect list \<times> status" where
  \<comment> \<open>\<^verbatim>\<open>onPrivmsg\<close> together with the callback it starts, in a goroutine or not.\<close>
  "serve w b msg =
     (case onPrivmsg w b msg of
        Ignored \<Rightarrow> ([], Returned)
      | IndexPanic \<Rightarrow> ([], Panicked)
      | Invoke cmd rest replyTarget sourceNick \<Rightarrow>
          run_callback w b (callback cmd) rest (replyFunc replyTarget sourceNick))"

section \<open>The earlier copy of the handlers\<close>

definition old_ExtractFirstLine :: "gostring \<Rightarrow> gostring" where
  "old_ExtractFirstLine s = TrimSpace (SplitN s [10] 2 ! 0)"

definition old_replyFunc :: "gostring \<Rightarrow> ReplyFunc" where
  "old_replyFunc replyTarget s a =
     (if length a = 0 then Privmsg replyTarget s else Privmsgf replyTarget s a)"

definition old_runCode ::
  "env \<Rightarrow> gostring \<Rightarrow> bool \<Rightarrow> bool \<Rightarrow> bool
     \<Rightarrow> effect list \<times> Response option \<times> gostring \<times> error option" where
  \<comment> \<open>as \<^verbatim>\<open>runCode\<close>, but the errors are returned as they are\<close>
  "old_runCode w code doShare doImports doFormat =
     (let eff1 =
            (if doImports \<or> doFormat then [Call_imports_Process code (\<not> doImports)]
             else [])
      in case format_source w code doImports doFormat of
           Inl err \<Rightarrow> (eff1, None, [], Some err)
         | Inr codeBytes \<Rightarrow>
             (let share =
                    (if doShare then
                       (case goplay_Share w codeBytes of
                          Inr s \<Rightarrow> s
                        | Inl err \<Rightarrow> str ''Unable to create share link'')
                     else []);
                  eff2 = eff1 @ (if doShare then [Call_Share codeBytes] else [])
                         @ [Call_Compile codeBytes]
              in case goplay_Compile w codeBytes of
                   Inl err \<Rightarrow> (eff2, None, [], Some err)
                 | Inr res \<Rightarrow> (eff2, Some res, share, None)))"

definition old_EvalCmd :: "env \<Rightarrow> gostring \<Rightarrow> ReplyFunc \<Rightarrow> effect list \<times> status" where
  "old_EvalCmd w args reply =
     (if TrimSpace args = [] then ([reply (str ''Cannot eval empty code'') []], Returned)
      else
        (case old_runCode w (builtUp args) True True True of
              (eff, res, shareLink, err) \<Rightarrow>
                (let eff1 = eff @
                       (case err of
                          None \<Rightarrow> []
                        | Some e \<Rightarrow> [reply (str ''Error occurred: '' @ Error e) []])
                 in case res of
                      None \<Rightarrow> (eff1, Panicked)
                    | Some r \<Rightarrow>
                        if length (Errors r) \<noteq> 0 then
                          (eff1 @ [reply (str ''Compile failed! '' @ TrimSpace (Errors r)) []],
                           Returned)
                        else if length (Events r) = 0 then
                          (eff1 @ [reply (str ''Complete, but no prints'') []], Returned)
                        else
                          (let extraInfo =
                                 (if length (Events r) > 1 then
                                    str '' (First line only. ''
                                    @ fmt_d (int (length (Events r)))
                                    @ str '' events returned)''
                                  else [])
                           in (eff1 @
                               [reply (str ''Complete %s%s : %s'')
                                  [StringArg shareLink, StringArg extraInfo,
                                   StringArg (old_ExtractFirstLine
                                                (Message (Events r ! 0)))]],
                               Returned)))))"

definition old_runPlayLink :: "env \<Rightarrow> gostring \<Rightarrow> ReplyFunc \<Rightarrow> effect list \<times> status" where
  \<comment> \<open>After a failed download the handler goes on with the empty text that
      \<^verbatim>\<open>downloadPlaySnippet\<close> returns beside its error.\<close>
  "old_runPlayLink w args reply =
     (if args = [] then ([reply (str ''Cannot parse an empty link / URL'') []], Returned)
      else
        case downloadPlaySnippet w args of
          (eff0, dl) \<Rightarrow>
            (case old_runCode w (case dl of Inl err \<Rightarrow> [] | Inr code \<Rightarrow> code)
                    False False False of
               (eff, runRes, share, Some err) \<Rightarrow>
                 (eff0 @ eff @ [reply (str ''Unable to start compile: %s'') [ErrorArg err]],
                  Returned)
             | (eff, None, share, None) \<Rightarrow> (eff0 @ eff, Panicked)
             | (eff, Some r, share, None) \<Rightarrow>
                 if length (Errors r) \<noteq> 0 then
                   (eff0 @ eff @ [reply (str ''Compile failed! '' @ TrimSpace (Errors r)) []],
                    Returned)
                 else if length (Events r) = 0 then
                   (eff0 @ eff @ [reply (str ''Complete, but no prints'') []], Returned)
                 else
                   (eff0 @ eff @
                    [reply (str ''Complete: %s'')
                       [StringArg (old_ExtractFirstLine (Message (Events r ! 0)))]],
                    Returned)))"

section \<open>The words of the specification\<close>

definition bare_identifier :: "gostring \<Rightarrow> bool" where
  \<comment> \<open>A bare identifier: eight or more alphanumeric runes, and after them nothing or a
      file extension, which is a dot (46) and alphanumeric runes, as in \<^verbatim>\<open>.go\<close>.\<close>
  "bare_identifier s =
     (8 \<le> length (takeWhile alnum s)
      \<and> (case dropWhile alnum s of
            [] \<Rightarrow> True
          | c # ext \<Rightarrow> c = 46 \<and> ext \<noteq> [] \<and> list_all alnum ext))"

definition sharing_url :: "gostring \<Rightarrow> bool" where
  \<comment> \<open>A reference that the expression for sharing URLs matches.\<close>
  "sharing_url s =
     (FindStringSubmatch_1 goplaygroundURIValidRe_head goplaygroundURIValidRe_group s
        \<noteq> None)"

section \<open>A sample run\<close>

definition demo_env :: env where
  \<comment> \<open>The import resolver returns the source as it is, the share call returns a link,
      the program prints three events, and the sharing service cannot be reached.\<close>
  "demo_env =
     \<lparr>IsPrint_table = (\<lambda>r. True),
      imports_Process = (\<lambda>src fo. Inr src),
      goplay_Share = (\<lambda>c. Inr (str ''https://play.golang.org/p/Zzzzzzzzzzz'')),
      goplay_Compile = (\<lambda>c. Inr \<lparr>Errors = [], Events =
         [\<lparr>Message = str ''line1'' @ [10] @ str ''hidden'', Kind = str ''stdout'', Delay = 0\<rparr>,
          \<lparr>Message = str ''e2'', Kind = str ''stdout'', Delay = 0\<rparr>,
          \<lparr>Message = str ''e3'', Kind = str ''stdout'', Delay = 0\<rparr>]\<rparr>),
      http_Get = (\<lambda>u. Inl (errors_New (str ''dial tcp: no route to host''))),
      range_commands = [str ''eval'', str ''playrun'', str ''play'', str ''help''],
      SplitNUH_nick = takeWhile (\<lambda>c. c \<noteq> 33)\<rparr>"

definition demo_lib :: lib where
  \<comment> \<open>Every line fits, and the directives that are not written out print nothing.\<close>
  "demo_lib =
     \<lparr>fmt_directive = (\<lambda>f a n r. ([], 1, n, r)),
      fmt_extra = (\<lambda>a. []),
      conn_room = (\<lambda>target msg. Some (length msg))\<rparr>"

definition demo_bot :: Bot where
  "demo_bot = \<lparr>CommandPrefix = str ''~'', CurrentNick = str ''goplay'',
               commands = init_commands\<rparr>"

section \<open>Properties\<close>

lemma SplitN_2:
  "SplitN s sep 2 =
     (case Index s sep of None \<Rightarrow> [s] | Some i \<Rightarrow> [take i s, drop (i + length sep) s])"
  by (simp add: numeral_2_eq_2 split: option.split)

lemma SplitN_3:
  "SplitN s sep 3 =
     (case Index s sep of
        None \<Rightarrow> [s]
      | Some i \<Rightarrow> take i s # SplitN (drop (i + length sep) s) sep 2)"
  by (simp add: numeral_3_eq_3 numeral_2_eq_2 split: option.split)

lemmas lib_defs = str_def HasPrefix_def HasSuffix_def TrimSpace_def unicode_IsSpace_def
  unicode_IsPrint_def ReplaceAll_rune_def SplitN_2 SplitN_3 suffix_to_prefix

subsection \<open>What the two expressions match\<close>

lemma set_re_seq: "set (re_seq a b s) = (\<Union>x\<in>set (a s). set (b x))"
  by (simp add: re_seq_def)

lemma re_lit_rest: "m \<in> set (re_lit l s) \<Longrightarrow> s = l @ m"
  by (auto simp: re_lit_def prefix_def split: if_splits)

lemma re_class_rest: "m \<in> set (re_class p s) \<Longrightarrow> \<exists>c. s = c # m"
  by (auto simp: re_class_def split: list.splits if_splits)

lemma re_lit_sub: "y \<in> set (re_lit l x) \<Longrightarrow> set y \<subseteq> set x"
  by (auto dest: re_lit_rest)

lemma re_dot_sub: "y \<in> set (re_dot x) \<Longrightarrow> set y \<subseteq> set x"
  by (auto simp: re_dot_def dest: re_class_rest)

lemma re_opt_sub:
  assumes "\<And>x y. y \<in> set (a x) \<Longrightarrow> set y \<subseteq> set x"
  shows "y \<in> set (re_opt a x) \<Longrightarrow> set y \<subseteq> set x"
  using assms by (auto simp: re_opt_def)

lemma re_seq_sub:
  assumes "\<And>x y. y \<in> set (a x) \<Longrightarrow> set y \<subseteq> set x"
    and "\<And>x y. y \<in> set (b x) \<Longrightarrow> set y \<subseteq> set x"
  shows "y \<in> set (re_seq a b x) \<Longrightarrow> set y \<subseteq> set x"
  using assms by (fastforce simp: set_re_seq)

lemma re_seq_needs:
  assumes "m \<in> set (re_seq a b s)"
    and "\<And>x y. y \<in> set (a x) \<Longrightarrow> set y \<subseteq> set x"
    and "\<And>x y. y \<in> set (b x) \<Longrightarrow> c \<in> set x"
  shows "c \<in> set s"
proof -
  from assms(1) obtain x where x: "x \<in> set (a s)" "m \<in> set (b x)"
    by (auto simp: set_re_seq)
  from assms(3) [OF x(2)] assms(2) [OF x(1)] show ?thesis by auto
qed

lemma head_needs_slash:
  assumes "m \<in> set (goplaygroundURIValidRe_head s)"
  shows "47 \<in> set s"
proof -
  have org: "\<And>x y. y \<in> set (re_lit (str ''org/p/'') x) \<Longrightarrow> 47 \<in> set x"
    by (auto simp: str_def dest: re_lit_rest)
  have d2: "\<And>x y. y \<in> set (re_seq re_dot (re_lit (str ''org/p/'')) x) \<Longrightarrow> 47 \<in> set x"
    by (erule re_seq_needs [OF _ re_dot_sub org])
  have g: "\<And>x y. y \<in> set (re_seq (re_lit (str ''golang''))
                 (re_seq re_dot (re_lit (str ''org/p/''))) x) \<Longrightarrow> 47 \<in> set x"
    by (erule re_seq_needs [OF _ re_lit_sub d2])
  have d1: "\<And>x y. y \<in> set (re_seq re_dot (re_seq (re_lit (str ''golang''))
                 (re_seq re_dot (re_lit (str ''org/p/'')))) x) \<Longrightarrow> 47 \<in> set x"
    by (erule re_seq_needs [OF _ re_dot_sub g])
  have p: "\<And>x y. y \<in> set (re_seq (re_lit (str ''play'')) (re_seq re_dot
                 (re_seq (re_lit (str ''golang''))
                 (re_seq re_dot (re_lit (str ''org/p/''))))) x) \<Longrightarrow> 47 \<in> set x"
    by (erule re_seq_needs [OF _ re_lit_sub d1])
  have scheme: "\<And>x y. y \<in> set (re_opt (re_seq (re_lit (str ''http''))
                  (re_seq (re_opt (re_lit (str ''s''))) (re_lit (str ''://'')))) x)
                \<Longrightarrow> set y \<subseteq> set x"
    by (erule re_opt_sub [OF re_seq_sub [OF re_lit_sub
          re_seq_sub [OF re_opt_sub [OF re_lit_sub] re_lit_sub]], rotated -1])
  show ?thesis
    using assms unfolding goplaygroundURIValidRe_head_def
    by (rule re_seq_needs [OF _ scheme p])
qed

lemma no_slash_not_url:
  assumes "47 \<notin> set s"
  shows "FindStringSubmatch_1 goplaygroundURIValidRe_head goplaygroundURIValidRe_group s = None"
proof -
  have "goplaygroundURIValidRe_head s = []"
    using assms head_needs_slash [of _ s] by (cases "goplaygroundURIValidRe_head s") auto
  then show ?thesis by (simp add: FindStringSubmatch_1_def)
qed

lemma re_at_least_nonempty: "re_at_least n p s \<noteq> [] \<longleftrightarrow> n \<le> length (takeWhile p s)"
  by (simp add: re_at_least_def)

lemma snippetValidRe_nonempty:
  "snippetValidRe s \<noteq> [] \<longleftrightarrow> 8 \<le> length (takeWhile alnum s)"
proof -
  have "snippetValidRe s \<noteq> [] \<longleftrightarrow> re_at_least 8 alnum s \<noteq> []"
    by (cases "re_at_least 8 alnum s") (simp_all add: snippetValidRe_def re_seq_def re_opt_def)
  then show ?thesis by (simp add: re_at_least_nonempty)
qed

lemma snippetIsValid_iff:
  "snippetIsValid s \<longleftrightarrow> (\<exists>i. 8 \<le> length (takeWhile alnum (drop i s)))"
proof
  assume "snippetIsValid s"
  then show "\<exists>i. 8 \<le> length (takeWhile alnum (drop i s))"
    by (auto simp: snippetIsValid_def MatchString_def list_ex_iff snippetValidRe_nonempty)
next
  assume "\<exists>i. 8 \<le> length (takeWhile alnum (drop i s))"
  then obtain i where i: "8 \<le> length (takeWhile alnum (drop i s))" ..
  have "i < Suc (length s)"
  proof (rule ccontr)
    assume "\<not> i < Suc (length s)"
    then have "drop i s = []" by simp
    with i show False by simp
  qed
  with i show "snippetIsValid s"
    by (auto simp: snippetIsValid_def MatchString_def list_ex_iff snippetValidRe_nonempty
        simp del: upt_Suc)
qed

lemma snippetIsValid_length: "snippetIsValid s \<Longrightarrow> 8 \<le> length s"
proof -
  assume "snippetIsValid s"
  then obtain i where "8 \<le> length (takeWhile alnum (drop i s))"
    by (auto simp: snippetIsValid_iff)
  moreover have "length (takeWhile alnum (drop i s)) \<le> length (drop i s)"
    by (rule length_takeWhile_le)
  ultimately show ?thesis by simp
qed

lemma bare_identifier_chars:
  assumes "bare_identifier s" and "c \<in> set s"
  shows "alnum c \<or> c = 46"
proof -
  have "set s = set (takeWhile alnum s) \<union> set (dropWhile alnum s)"
    by (metis set_append takeWhile_dropWhile_id)
  moreover have "\<forall>x\<in>set (takeWhile alnum s). alnum x"
    by (auto dest: set_takeWhileD)
  moreover have "\<forall>x\<in>set (dropWhile alnum s). alnum x \<or> x = 46"
    using assms(1)
    by (cases "dropWhile alnum s")
      (auto simp: bare_identifier_def list_all_iff dest: set_dropWhileD)
  ultimately show ?thesis using assms(2) by auto
qed

lemma extractPlaySnippetID_bare:
  assumes "bare_identifier s"
  shows "extractPlaySnippetID s = Inr s"
proof -
  have "47 \<notin> set s"
    using bare_identifier_chars [OF assms, of 47] by (auto simp: alnum_def)
  moreover have "snippetIsValid s"
    unfolding snippetIsValid_iff using assms
    by (intro exI [of _ 0]) (simp add: bare_identifier_def)
  ultimately show ?thesis
    by (simp add: extractPlaySnippetID_def no_slash_not_url)
qed

lemma downloadPlaySnippet_invalid:
  assumes "47 \<notin> set s" and "\<not> snippetIsValid s"
  shows "downloadPlaySnippet w s = ([], Inl (errors_New (str ''invalid snippet'')))"
  using assms by (simp add: downloadPlaySnippet_def extractPlaySnippetID_def no_slash_not_url)

subsection \<open>Errors in the eval handler\<close>

text \<open>
  C1. When \<^verbatim>\<open>runCode\<close> returns an error, \<^verbatim>\<open>EvalCmd\<close> replies and goes on to read
  \<^verbatim>\<open>res.Errors\<close> through the nil response: the handler panics after its reply, both
  when the import resolver rejects the source and when the execution service fails.
\<close>

theorem EvalCmd_error_panics:
  "EvalCmd (w\<lparr>imports_Process := (\<lambda>src fo. Inl e)\<rparr>) (str ''}'') reply =
     ([Call_imports_Process (builtUp (str ''}'')) False,
       reply (str ''Error occurred: could not format / imports source: '' @ Error e) []],
      Panicked)
   \<and> EvalCmd (w\<lparr>imports_Process := (\<lambda>src fo. Inr src), goplay_Share := (\<lambda>c. Inr link),
                 goplay_Compile := (\<lambda>c. Inl e)\<rparr>) (str ''x'') reply =
     ([Call_imports_Process (builtUp (str ''x'')) False, Call_Share (builtUp (str ''x'')),
       Call_Compile (builtUp (str ''x'')),
       reply (str ''Error occurred: error from goplay: '' @ Error e) []],
      Panicked)"
  by (simp add: EvalCmd_def runCode_def format_source_def Errorf_w_def lib_defs)

text \<open>
  The same holds for every error of \<^verbatim>\<open>runCode\<close>, which always comes with a nil
  response, and for the earlier copy of the handler.
\<close>

lemma EvalCmd_runCode_error:
  assumes "TrimSpace args \<noteq> []"
    and "runCode w (builtUp args) True True True = (eff, None, share, Some err)"
  shows "EvalCmd w args reply =
           (eff @ [reply (str ''Error occurred: '' @ Error err) []], Panicked)"
  using assms by (simp add: EvalCmd_def)

lemma runCode_error_nil:
  assumes "runCode w code doShare doImports doFormat = (eff, res, share, Some err)"
  shows "res = None"
  using assms by (auto simp: runCode_def Let_def split: sum.splits)

lemma old_EvalCmd_error_panics:
  "old_EvalCmd (w\<lparr>imports_Process := (\<lambda>src fo. Inl e)\<rparr>) (str ''}'') reply =
     ([Call_imports_Process (builtUp (str ''}'')) False,
       reply (str ''Error occurred: '' @ Error e) []],
      Panicked)"
  by (simp add: old_EvalCmd_def old_runCode_def format_source_def lib_defs)

subsection \<open>A reply on every path\<close>

text \<open>
  C2. \<^verbatim>\<open>PlayRun\<close> returns without a reply when the snippet cannot be fetched: for a
  reference that is not valid no call is made at all, and for a snippet that the
  sharing service does not have the fetch is the only call. \<^verbatim>\<open>PlayCmd\<close> replies
  on the same failure.
\<close>

theorem PlayRun_download_failure_silent:
  "PlayRun w (str ''nope'') reply = ([], Returned)
   \<and> PlayRun (w\<lparr>http_Get := (\<lambda>u. Inr \<lparr>StatusCode = 404, Body = Inr []\<rparr>)\<rparr>)
         (str ''abcdefgh'') reply =
       ([Call_http_Get (str ''https://play.golang.org/p/abcdefgh.go'')], Returned)
   \<and> PlayCmd w (str ''nope'') reply =
       ([reply (str ''Unable to get snippet: %s'')
           [ErrorArg (errors_New (str ''invalid snippet''))]],
        Returned)"
proof -
  have nope: "downloadPlaySnippet w (str ''nope'') = ([], Inl (errors_New (str ''invalid snippet'')))"
    for w
    using snippetIsValid_length [of "str ''nope''"]
    by (intro downloadPlaySnippet_invalid) (auto simp: str_def)
  have "bare_identifier (str ''abcdefgh'')"
    by (simp add: bare_identifier_def alnum_def str_def)
  then have ex: "extractPlaySnippetID (str ''abcdefgh'') = Inr (str ''abcdefgh'')"
    by (rule extractPlaySnippetID_bare)
  have a: "PlayRun w (str ''nope'') reply = ([], Returned)"
    by (simp add: PlayRun_def nope) (simp add: str_def)
  have b: "PlayRun (w\<lparr>http_Get := (\<lambda>u. Inr \<lparr>StatusCode = 404, Body = Inr []\<rparr>)\<rparr>)
         (str ''abcdefgh'') reply =
       ([Call_http_Get (str ''https://play.golang.org/p/abcdefgh.go'')], Returned)"
    by (simp add: PlayRun_def downloadPlaySnippet_def ex Let_def)
      (simp add: str_def HasSuffix_def suffix_to_prefix)
  have c: "PlayCmd w (str ''nope'') reply =
       ([reply (str ''Unable to get snippet: %s'')
           [ErrorArg (errors_New (str ''invalid snippet''))]],
        Returned)"
    by (simp add: PlayCmd_def nope) (simp add: str_def)
  from a b c show ?thesis by simp
qed

text \<open>
  Every failed download ends \<^verbatim>\<open>PlayRun\<close> in this way; the calls made until then are at
  most the one fetch. The earlier copy of the handler goes on after the failure and
  submits the empty text for execution.
\<close>

lemma PlayRun_download_error:
  assumes "args \<noteq> []" and "downloadPlaySnippet w args = (eff, Inl err)"
  shows "PlayRun w args reply = (eff, Returned)"
  using assms by (simp add: PlayRun_def)

lemma downloadPlaySnippet_effects:
  "fst (downloadPlaySnippet w s) = [] \<or> (\<exists>url. fst (downloadPlaySnippet w s) = [Call_http_Get url])"
  by (simp add: downloadPlaySnippet_def Let_def split: sum.split)

lemma old_runPlayLink_download_failure:
  "old_runPlayLink (w\<lparr>goplay_Compile := (\<lambda>c. Inl e)\<rparr>) (str ''nope'') reply =
     ([Call_Compile [], reply (str ''Unable to start compile: %s'') [ErrorArg e]], Returned)"
proof -
  have "downloadPlaySnippet w (str ''nope'') = ([], Inl (errors_New (str ''invalid snippet'')))"
    for w
    using snippetIsValid_length [of "str ''nope''"]
    by (intro downloadPlaySnippet_invalid) (auto simp: str_def)
  then show ?thesis
    by (simp add: old_runPlayLink_def old_runCode_def format_source_def)
      (simp add: str_def)
qed

subsection \<open>References that are not snippets\<close>

text \<open>
  C3. The expression that validates a bare identifier has no anchors, so it accepts
  every text that holds eight alphanumeric runes in a row. The reference
  \<^verbatim>\<open>see abcdefgh!\<close> is neither a sharing URL nor a bare identifier, yet it is taken
  as the identifier and fetched.
\<close>

theorem downloadPlaySnippet_unanchored:
  "\<not> bare_identifier (str ''see abcdefgh!'')
   \<and> \<not> sharing_url (str ''see abcdefgh!'')
   \<and> extractPlaySnippetID (str ''see abcdefgh!'') = Inr (str ''see abcdefgh!'')
   \<and> fst (downloadPlaySnippet w (str ''see abcdefgh!'')) =
       [Call_http_Get (str ''https://play.golang.org/p/see abcdefgh!.go'')]"
proof -
  have a: "\<not> bare_identifier (str ''see abcdefgh!'')"
    by (simp add: bare_identifier_def alnum_def str_def)
  have u: "FindStringSubmatch_1 goplaygroundURIValidRe_head goplaygroundURIValidRe_group
             (str ''see abcdefgh!'') = None"
    by (rule no_slash_not_url) (simp add: str_def)
  have v: "snippetIsValid (str ''see abcdefgh!'')"
    unfolding snippetIsValid_iff
    by (rule exI [of _ 4]) (simp add: str_def alnum_def)
  have c: "extractPlaySnippetID (str ''see abcdefgh!'') = Inr (str ''see abcdefgh!'')"
    by (simp add: extractPlaySnippetID_def u v)
  have d: "fst (downloadPlaySnippet w (str ''see abcdefgh!'')) =
       [Call_http_Get (str ''https://play.golang.org/p/see abcdefgh!.go'')]"
    by (simp add: downloadPlaySnippet_def c Let_def split: sum.split)
      (simp add: str_def HasSuffix_def suffix_to_prefix)
  from a u c d show ?thesis by (simp add: sharing_url_def)
qed

subsection \<open>The first line of the output\<close>

text \<open>
  C4. The bell U+0007 is not printable, and the source looks for non-printable runes
  before it strips the bell: a first line that holds a bell is replaced by the
  suppressed-output message, where the specified order renders it with the bell removed.
\<close>

theorem ExtractFirstLine_bell_suppressed:
  "ExtractFirstLine tab (str ''a'' @ [7] @ str ''b'') = output_suppressed
   \<and> ExtractFirstLine_spec tab (str ''a'' @ [7] @ str ''b'') = str ''ab''"
  by (simp add: ExtractFirstLine_def ExtractFirstLine_spec_def output_suppressed_def lib_defs)

text \<open>
  The call that strips the bell never removes anything: where it is reached the line
  has printable runes only, so the result is the trimmed first line or the message.
\<close>

lemma ReplaceAll_rune_absent: "c \<notin> set s \<Longrightarrow> ReplaceAll_rune s c new = s"
  by (induction s) (simp_all add: ReplaceAll_rune_def)

lemma ExtractFirstLine_strips_nothing:
  "ExtractFirstLine tab s =
     (if list_ex (\<lambda>c. \<not> unicode_IsPrint tab c) (TrimSpace (SplitN s [10] 2 ! 0))
      then output_suppressed
      else TrimSpace (SplitN s [10] 2 ! 0))"
proof (cases "list_ex (\<lambda>c. \<not> unicode_IsPrint tab c) (TrimSpace (SplitN s [10] 2 ! 0))")
  case True
  then show ?thesis by (simp add: ExtractFirstLine_def)
next
  case False
  then have "\<forall>c\<in>set (TrimSpace (SplitN s [10] 2 ! 0)). unicode_IsPrint tab c"
    by (simp add: list_ex_iff)
  moreover have "\<not> unicode_IsPrint tab 7"
    by (simp add: unicode_IsPrint_def)
  ultimately have "7 \<notin> set (TrimSpace (SplitN s [10] 2 ! 0))"
    by blast
  with False show ?thesis
    by (simp add: ExtractFirstLine_def ReplaceAll_rune_absent)
qed

subsection \<open>Lines that are not addressed to the bot\<close>

text \<open>
  C6. A line that starts with the name of the bot is parsed as a mention whether or not
  whitespace follows the name. The line that is the name alone has no second token, and
  reading it is an index out of range: \<^verbatim>\<open>onPrivmsg\<close> panics. The line
  \<^verbatim>\<open>goplayer eval 1\<close> starts the eval handler.
\<close>

theorem onPrivmsg_bare_nick_panics:
  "onPrivmsg w demo_bot
     \<lparr>Prefix = str ''alice!a@example.org'', Params = [str ''#go'', str ''goplay'']\<rparr>
     = IndexPanic
   \<and> serve w demo_bot
       \<lparr>Prefix = str ''alice!a@example.org'', Params = [str ''#go'', str ''goplay'']\<rparr>
     = ([], Panicked)
   \<and> onPrivmsg w demo_bot
       \<lparr>Prefix = str ''alice!a@example.org'', Params = [str ''#go'', str ''goplayer eval 1'']\<rparr>
     = Invoke
         \<lparr>cmd_name = str ''eval'',
          cmd_help = str ''Evaluates the given go string. Imports are automatically resolved (stdlib only)'',
          callback = Callback_EvalCmd, goroutine = True\<rparr>
         (str ''1'') (str ''#go'') (SplitNUH_nick w (str ''alice!a@example.org''))"
  by (simp add: onPrivmsg_def serve_def parse_command_def demo_bot_def init_commands_def
      createCommand_def lib_defs)

text \<open>
  A line that starts neither with the command prefix nor with the name of the bot is
  ignored, and the two lines that the specification gives as examples are dispatched as
  it says.
\<close>

lemma onPrivmsg_not_addressed:
  assumes "2 \<le> length (Params msg)"
    and "\<not> HasPrefix (Params msg ! 1) (CommandPrefix b)"
    and "\<not> HasPrefix (Params msg ! 1) (CurrentNick b)"
  shows "onPrivmsg w b msg = Ignored" and "serve w b msg = ([], Returned)"
  using assms by (simp_all add: onPrivmsg_def serve_def)

lemma onPrivmsg_examples:
  "onPrivmsg w demo_bot
     \<lparr>Prefix = str ''alice!a@example.org'', Params = [str ''#go'', str ''~eval fmt.Println(1)'']\<rparr>
     = Invoke
         \<lparr>cmd_name = str ''eval'',
          cmd_help = str ''Evaluates the given go string. Imports are automatically resolved (stdlib only)'',
          callback = Callback_EvalCmd, goroutine = True\<rparr>
         (str ''fmt.Println(1)'') (str ''#go'') (SplitNUH_nick w (str ''alice!a@example.org''))"
  "onPrivmsg w demo_bot
     \<lparr>Prefix = str ''alice!a@example.org'', Params = [str ''goplay'', str ''goplay help'']\<rparr>
     = Invoke
         \<lparr>cmd_name = str ''help'', cmd_help = str ''This output.'',
          callback = Callback_HelpCmd, goroutine = False\<rparr>
         [] (SplitNUH_nick w (str ''alice!a@example.org''))
         (SplitNUH_nick w (str ''alice!a@example.org''))"
  by (simp_all add: onPrivmsg_def parse_command_def demo_bot_def init_commands_def
      createCommand_def lib_defs)

subsection \<open>Empty code\<close>

lemma TrimSpace_blank:
  assumes "list_all unicode_IsSpace s"
  shows "TrimSpace s = []"
proof -
  have "dropWhile unicode_IsSpace s = []"
    using assms by (simp only: list_all_iff dropWhile_eq_Nil_conv)
  then show ?thesis by (simp only: TrimSpace_def rev.simps dropWhile.simps)
qed

text \<open>
  C7. For an argument that consists of whitespace only (the empty argument included),
  \<^verbatim>\<open>EvalCmd\<close> sends the message \<^verbatim>\<open>Cannot eval empty code\<close> and returns: the reply is
  its only effect, so the import resolver, the share call and the execution service are
  not called.
\<close>

theorem EvalCmd_blank:
  "list_all unicode_IsSpace args \<Longrightarrow>
     EvalCmd w args (replyFunc replyTarget sourceNick) =
       ([Privmsg replyTarget (str ''Cannot eval empty code'')], Returned)"
  by (simp add: EvalCmd_def TrimSpace_blank replyFunc_def)

theorem EvalCmd_blank_witness:
  "list_all unicode_IsSpace [32, 9, 0x3000]
   \<and> EvalCmd demo_env [32, 9, 0x3000] (replyFunc (str ''#go'') (str ''alice'')) =
       ([Privmsg (str ''#go'') (str ''Cannot eval empty code'')], Returned)"
  using EvalCmd_blank [of "[32, 9, 0x3000]" demo_env "str ''#go''" "str ''alice''"]
  by (simp add: unicode_IsSpace_def)

lemma old_EvalCmd_blank:
  "list_all unicode_IsSpace args \<Longrightarrow>
     old_EvalCmd w args (old_replyFunc replyTarget) =
       ([Privmsg replyTarget (str ''Cannot eval empty code'')], Returned)"
  by (simp add: old_EvalCmd_def TrimSpace_blank old_replyFunc_def)

subsection \<open>Bare identifiers\<close>

text \<open>
  C8. For a reference that is a bare identifier (eight or more alphanumeric runes and an
  optional extension), \<^verbatim>\<open>downloadPlaySnippet\<close> makes exactly one call, the HTTP fetch of
  the sharing service's path \<^verbatim>\<open>/p/\<close> followed by the identifier, to which \<^verbatim>\<open>.go\<close> is
  appended only when it does not end in \<^verbatim>\<open>.go\<close> already. This holds whatever the
  service answers.
\<close>

theorem downloadPlaySnippet_bare_identifier:
  assumes "bare_identifier s"
  shows "fst (downloadPlaySnippet w s) =
           [Call_http_Get (str ''https://play.golang.org/p/''
              @ (if HasSuffix s (str ''.go'') then s else s @ str ''.go''))]"
  by (simp add: downloadPlaySnippet_def extractPlaySnippetID_bare [OF assms] Let_def str_def
      split: sum.split)

theorem downloadPlaySnippet_bare_identifier_witness:
  "bare_identifier (str ''abcdefgh'')
   \<and> fst (downloadPlaySnippet demo_env (str ''abcdefgh'')) =
       [Call_http_Get (str ''https://play.golang.org/p/abcdefgh.go'')]
   \<and> bare_identifier (str ''Zzzzzzzzzzz.go'')
   \<and> fst (downloadPlaySnippet demo_env (str ''Zzzzzzzzzzz.go'')) =
       [Call_http_Get (str ''https://play.golang.org/p/Zzzzzzzzzzz.go'')]"
proof -
  have a: "bare_identifier (str ''abcdefgh'')"
    by (simp add: bare_identifier_def alnum_def str_def)
  have b: "bare_identifier (str ''Zzzzzzzzzzz.go'')"
    by (simp add: bare_identifier_def alnum_def str_def)
  show ?thesis
    using a b downloadPlaySnippet_bare_identifier [OF a, of demo_env]
      downloadPlaySnippet_bare_identifier [OF b, of demo_env]
    by (simp add: str_def HasSuffix_def suffix_to_prefix)
qed

subsection \<open>Formatting and sending\<close>

lemma Sprintf_from_literal:
  "37 \<notin> set p \<Longrightarrow> Sprintf_from L (p @ f) a n r = p @ Sprintf_from L f a n r"
  by (induction p) simp_all

lemma Sprintf_literal: "37 \<notin> set p \<Longrightarrow> Sprintf L (p @ f) a = p @ Sprintf L f a"
  by (simp add: Sprintf_def Sprintf_from_literal)

lemma transmit_eq:
  "transmit L target msg =
     (case conn_room L target msg of
        None \<Rightarrow> None
      | Some k \<Rightarrow>
          if 0 \<in> set (take k msg) \<or> 10 \<in> set (take k msg) \<or> 13 \<in> set (take k msg)
          then None else Some (take k msg))"
  by (auto simp: transmit_def list_ex_iff bad_char_def split: option.splits)

lemma transmit_fits:
  assumes "conn_room L target msg = Some k" and "length msg \<le> k"
    and "0 \<notin> set msg" and "10 \<notin> set msg" and "13 \<notin> set msg"
  shows "transmit L target msg = Some msg"
  using assms by (simp add: transmit_eq)

lemma Sprintf_examples:
  "Sprintf L (str ''%d%% of %s'') [IntArg 42, StringArg (str ''it'')] = str ''42% of it''"
  "Sprintf L (str ''Complete: %s'') [] = str ''Complete: %!s(MISSING)''"
  "Sprintf L (str ''100%'') [] = str ''100%!(NOVERB)''"
  "Sprintf L (str ''%s'') [ErrorArg (errors_New (str ''invalid snippet''))] = str ''invalid snippet''"
  "Sprintf L (str ''No errors'') [StringArg x] = str ''No errors'' @ fmt_extra L [StringArg x]"
  by (simp_all add: Sprintf_def str_def missing_def fmt_d_def digits.simps)

lemma Sprintf_other_directive:
  assumes "fmt_directive L (str ''q: %s'') [StringArg x, StringArg y] 0 False = (out, 1, 1, False)"
  shows "Sprintf L (str ''Help for %q: %s'') [StringArg x, StringArg y] =
           str ''Help for '' @ out @ str '': '' @ y"
  using assms by (simp add: Sprintf_def str_def)

lemma transmit_cut: "transmit L target msg = Some l \<Longrightarrow> \<exists>k. l = take k msg"
  by (auto simp: transmit_def split: option.splits if_splits)

subsection \<open>The share link\<close>

text \<open>
  C9, as stated, fails when the execution call fails as well: \<^verbatim>\<open>runCode\<close> then returns
  its error with the empty share value, which is neither the text
  \<^verbatim>\<open>Unable to create share link\<close> (after a failed share call) nor the link obtained
  (after a successful one).
\<close>

theorem runCode_share_failure_counterexample:
  "snd (runCode (demo_env\<lparr>goplay_Share := (\<lambda>c. Inl (errors_New (str ''timeout''))),
                        goplay_Compile := (\<lambda>c. Inl (errors_New (str ''timeout'')))\<rparr>)
          (str ''package main'') True True True)
     = (None, [], Some (errors_New (str ''error from goplay: timeout'')))
   \<and> snd (runCode (demo_env\<lparr>goplay_Compile := (\<lambda>c. Inl (errors_New (str ''timeout'')))\<rparr>)
          (str ''package main'') True True True)
     = (None, [], Some (errors_New (str ''error from goplay: timeout'')))
   \<and> [] \<noteq> str ''Unable to create share link''
   \<and> [] \<noteq> str ''https://play.golang.org/p/Zzzzzzzzzzz''"
  by (simp add: runCode_def format_source_def demo_env_def Errorf_w_def str_def)

text \<open>
  C9, amended. With share-link creation enabled and a source that the import resolver
  accepts, \<^verbatim>\<open>runCode\<close> makes the share call and then the execution call, whatever the
  share call answers, and its error is the one of the execution service alone. When the
  execution call succeeds, the share value returned is the link obtained, or the text
  \<^verbatim>\<open>Unable to create share link\<close> when the share call failed; when the execution call
  fails, the response is nil and the share value is empty.
\<close>

theorem runCode_share_failure:
  assumes "format_source w code doImports doFormat = Inr codeBytes"
  shows "runCode w code True doImports doFormat =
           ((if doImports \<or> doFormat then [Call_imports_Process code (\<not> doImports)] else [])
            @ [Call_Share codeBytes, Call_Compile codeBytes],
            (case goplay_Compile w codeBytes of
               Inr res \<Rightarrow>
                 (Some res,
                  (case goplay_Share w codeBytes of
                     Inr link \<Rightarrow> link
                   | Inl err \<Rightarrow> str ''Unable to create share link''),
                  None)
             | Inl err \<Rightarrow> (None, [], Some (errors_New (str ''error from goplay: '' @ Error err)))))"
  using assms by (simp add: runCode_def Errorf_w_def split: sum.split)

theorem runCode_share_failure_witness:
  "format_source (demo_env\<lparr>goplay_Share := (\<lambda>c. Inl (errors_New (str ''timeout'')))\<rparr>)
     (str ''package main'') True True = Inr (str ''package main'')
   \<and> runCode (demo_env\<lparr>goplay_Share := (\<lambda>c. Inl (errors_New (str ''timeout'')))\<rparr>)
         (str ''package main'') True True True =
       ([Call_imports_Process (str ''package main'') False, Call_Share (str ''package main''),
         Call_Compile (str ''package main'')],
        Some \<lparr>Errors = [], Events =
          [\<lparr>Message = str ''line1'' @ [10] @ str ''hidden'', Kind = str ''stdout'', Delay = 0\<rparr>,
           \<lparr>Message = str ''e2'', Kind = str ''stdout'', Delay = 0\<rparr>,
           \<lparr>Message = str ''e3'', Kind = str ''stdout'', Delay = 0\<rparr>]\<rparr>,
        str ''Unable to create share link'', None)
   \<and> fst (snd (snd (runCode demo_env (str ''package main'') True True True))) =
       str ''https://play.golang.org/p/Zzzzzzzzzzz''"
proof -
  have f: "format_source (demo_env\<lparr>goplay_Share := (\<lambda>c. Inl (errors_New (str ''timeout'')))\<rparr>)
     (str ''package main'') True True = Inr (str ''package main'')"
    by (simp add: format_source_def demo_env_def)
  have g: "format_source demo_env (str ''package main'') True True = Inr (str ''package main'')"
    by (simp add: format_source_def demo_env_def)
  show ?thesis
    using f runCode_share_failure [OF f] runCode_share_failure [OF g]
    by (simp add: demo_env_def)
qed

subsection \<open>The reply function\<close>

text \<open>
  C10, as stated, fails for a text with a line break: called without operands, the
  reply function hands the text to \<^verbatim>\<open>Privmsg\<close> as it is, and the connection sends nothing
  for it. The handlers make such calls with the diagnostics of the compiler.
\<close>

theorem replyFunc_line_break_counterexample:
  "privmsg_text demo_lib
     (replyFunc (str ''#go'') (str ''alice'')
        (str ''./prog.go:4:2: undefined: x'' @ [10, 10] @ str ''Go build failed.'') [])
     = Some (str ''./prog.go:4:2: undefined: x'' @ [10, 10] @ str ''Go build failed.'')
   \<and> sent_line demo_lib
     (replyFunc (str ''#go'') (str ''alice'')
        (str ''./prog.go:4:2: undefined: x'' @ [10, 10] @ str ''Go build failed.'') [])
     = None"
  by (simp add: replyFunc_def transmit_def demo_lib_def bad_char_def str_def)

text \<open>
  C10, amended. Called without operands, the reply function calls \<^verbatim>\<open>Privmsg\<close> with its
  text as it is, with no sender prefix. Called with operands, and for a nickname without
  a percent sign, the text that \<^verbatim>\<open>Privmsgf\<close> hands to \<^verbatim>\<open>Privmsg\<close> is the nickname in
  parentheses and a space, followed by what \<^verbatim>\<open>fmt.Sprintf\<close> makes of the handler's format
  and operands, whatever the format. In both cases the line sent is what the connection
  makes of that text: the text itself when it fits into the line and holds no line
  break and no NUL.
\<close>

theorem replyFunc_sent_line:
  "(a = [] \<longrightarrow>
      replyFunc replyTarget sourceNick s a = Privmsg replyTarget s
      \<and> privmsg_text L (replyFunc replyTarget sourceNick s a) = Some s
      \<and> sent_line L (replyFunc replyTarget sourceNick s a) =
          (case conn_room L replyTarget s of
             None \<Rightarrow> None
           | Some k \<Rightarrow>
               if 0 \<in> set (take k s) \<or> 10 \<in> set (take k s) \<or> 13 \<in> set (take k s)
               then None else Some (take k s))
      \<and> (conn_room L replyTarget s = Some k \<and> length s \<le> k
           \<and> 0 \<notin> set s \<and> 10 \<notin> set s \<and> 13 \<notin> set s \<longrightarrow>
           sent_line L (replyFunc replyTarget sourceNick s a) = Some s))
   \<and> (a \<noteq> [] \<and> 37 \<notin> set sourceNick \<longrightarrow>
        replyFunc replyTarget sourceNick s a =
          Privmsgf replyTarget (str ''('' @ sourceNick @ str '') '' @ s) a
        \<and> privmsg_text L (replyFunc replyTarget sourceNick s a) =
          Some (str ''('' @ sourceNick @ str '') '' @ Sprintf L s a)
        \<and> sent_line L (replyFunc replyTarget sourceNick s a) =
          (case conn_room L replyTarget (str ''('' @ sourceNick @ str '') '' @ Sprintf L s a) of
             None \<Rightarrow> None
           | Some k \<Rightarrow>
               if 0 \<in> set (take k (str ''('' @ sourceNick @ str '') '' @ Sprintf L s a))
                  \<or> 10 \<in> set (take k (str ''('' @ sourceNick @ str '') '' @ Sprintf L s a))
                  \<or> 13 \<in> set (take k (str ''('' @ sourceNick @ str '') '' @ Sprintf L s a))
               then None
               else Some (take k (str ''('' @ sourceNick @ str '') '' @ Sprintf L s a)))
        \<and> (conn_room L replyTarget (str ''('' @ sourceNick @ str '') '' @ Sprintf L s a) = Some k
             \<and> length (str ''('' @ sourceNick @ str '') '' @ Sprintf L s a) \<le> k
             \<and> 0 \<notin> set (str ''('' @ sourceNick @ str '') '' @ Sprintf L s a)
             \<and> 10 \<notin> set (str ''('' @ sourceNick @ str '') '' @ Sprintf L s a)
             \<and> 13 \<notin> set (str ''('' @ sourceNick @ str '') '' @ Sprintf L s a) \<longrightarrow>
             sent_line L (replyFunc replyTarget sourceNick s a) =
               Some (str ''('' @ sourceNick @ str '') '' @ Sprintf L s a)))"
proof -
  define T where "T = str ''('' @ sourceNick @ str '') '' @ Sprintf L s a"
  have key: "Sprintf L (str ''('' @ sourceNick @ str '') '' @ s) a = T"
    if "37 \<notin> set sourceNick"
    using that Sprintf_literal [of "str ''('' @ sourceNick @ str '') ''" L s a]
    by (simp add: str_def T_def)
  have A: "replyFunc replyTarget sourceNick s a = Privmsg replyTarget s
      \<and> privmsg_text L (replyFunc replyTarget sourceNick s a) = Some s
      \<and> sent_line L (replyFunc replyTarget sourceNick s a) =
          (case conn_room L replyTarget s of
             None \<Rightarrow> None
           | Some k \<Rightarrow>
               if 0 \<in> set (take k s) \<or> 10 \<in> set (take k s) \<or> 13 \<in> set (take k s)
               then None else Some (take k s))
      \<and> (conn_room L replyTarget s = Some k \<and> length s \<le> k
           \<and> 0 \<notin> set s \<and> 10 \<notin> set s \<and> 13 \<notin> set s \<longrightarrow>
           sent_line L (replyFunc replyTarget sourceNick s a) = Some s)"
    if "a = []"
    using that transmit_eq [of L replyTarget s] transmit_fits [of L replyTarget s k]
    by (simp add: replyFunc_def)
  have B: "replyFunc replyTarget sourceNick s a =
          Privmsgf replyTarget (str ''('' @ sourceNick @ str '') '' @ s) a
        \<and> privmsg_text L (replyFunc replyTarget sourceNick s a) = Some T
        \<and> sent_line L (replyFunc replyTarget sourceNick s a) =
          (case conn_room L replyTarget T of
             None \<Rightarrow> None
           | Some k \<Rightarrow>
               if 0 \<in> set (take k T) \<or> 10 \<in> set (take k T) \<or> 13 \<in> set (take k T)
               then None else Some (take k T))
        \<and> (conn_room L replyTarget T = Some k \<and> length T \<le> k
             \<and> 0 \<notin> set T \<and> 10 \<notin> set T \<and> 13 \<notin> set T \<longrightarrow>
             sent_line L (replyFunc replyTarget sourceNick s a) = Some T)"
    if "a \<noteq> []" "37 \<notin> set sourceNick"
    using that transmit_eq [of L replyTarget T] transmit_fits [of L replyTarget T k]
    by (simp add: replyFunc_def key)
  from A B show ?thesis
    unfolding T_def by blast
qed

theorem replyFunc_sent_line_witness:
  "conn_room demo_lib (str ''#go'') (str ''Complete, but no prints'') = Some 23
   \<and> length (str ''Complete, but no prints'') \<le> 23
   \<and> 0 \<notin> set (str ''Complete, but no prints'')
   \<and> 10 \<notin> set (str ''Complete, but no prints'')
   \<and> 13 \<notin> set (str ''Complete, but no prints'')
   \<and> sent_line demo_lib
       (replyFunc (str ''#go'') (str ''alice'') (str ''Complete, but no prints'') [])
     = Some (str ''Complete, but no prints'')
   \<and> [StringArg (str ''hi'')] \<noteq> [] \<and> 37 \<notin> set (str ''alice'')
   \<and> conn_room demo_lib (str ''#go'') (str ''(alice) Complete: hi'') = Some 20
   \<and> sent_line demo_lib
       (replyFunc (str ''#go'') (str ''alice'') (str ''Complete: %s'') [StringArg (str ''hi'')])
     = Some (str ''(alice) Complete: hi'')"
  using
    replyFunc_sent_line [where a = "[]" and replyTarget = "str ''#go''"
      and sourceNick = "str ''alice''" and s = "str ''Complete, but no prints''"
      and L = demo_lib and k = 23]
    replyFunc_sent_line [where a = "[StringArg (str ''hi'')]" and replyTarget = "str ''#go''"
      and sourceNick = "str ''alice''" and s = "str ''Complete: %s''" and L = demo_lib
      and k = 20]
  by (simp add: str_def Sprintf_def demo_lib_def transmit_def bad_char_def)

text \<open>
  A reply of this kind: the diagnostics of a failed build span several lines, and
  \<^verbatim>\<open>EvalCmd\<close> passes them on with the line breaks in them.
\<close>

lemma EvalCmd_diagnostics_not_sent:
  "map (sent_line demo_lib) (filter is_reply
     (fst (EvalCmd
        (demo_env\<lparr>goplay_Compile := (\<lambda>c. Inr \<lparr>Errors =
           str ''./prog.go:4:2: undefined: x'' @ [10, 10] @ str ''Go build failed.'' @ [10],
           Events = []\<rparr>)\<rparr>)
        (str ''x'') (replyFunc (str ''#go'') (str ''alice'')))))
     = [None]"
proof -
  have "EvalCmd
        (demo_env\<lparr>goplay_Compile := (\<lambda>c. Inr \<lparr>Errors =
           str ''./prog.go:4:2: undefined: x'' @ [10, 10] @ str ''Go build failed.'' @ [10],
           Events = []\<rparr>)\<rparr>)
        (str ''x'') (replyFunc (str ''#go'') (str ''alice''))
      = ([Call_imports_Process (builtUp (str ''x'')) False, Call_Share (builtUp (str ''x'')),
          Call_Compile (builtUp (str ''x'')),
          Privmsg (str ''#go'')
            (str ''./prog.go:4:2: undefined: x'' @ [10, 10] @ str ''Go build failed.'')],
         Returned)"
    by (simp add: EvalCmd_def runCode_def format_source_def demo_env_def replyFunc_def lib_defs)
  then show ?thesis
    by (simp add: transmit_def demo_lib_def bad_char_def str_def)
qed

subsection \<open>The reply for three events\<close>

lemma ExtractFirstLine_line1:
  "ExtractFirstLine tab (str ''line1'' @ [10] @ str ''hidden'') = str ''line1''"
  by (simp add: ExtractFirstLine_def lib_defs)

lemma fmt_d_3: "fmt_d 3 = str ''3''"
  by (simp add: fmt_d_def digits.simps str_def)

text \<open>
  C5, as stated, fails: for the three events the line that \<^verbatim>\<open>EvalCmd\<close> sends holds
  the note on the number of events before the first line of the output, not after it.
  In the sample run the line sent does not contain the text
  \<^verbatim>\<open>line1 (First line only. 3 events returned)\<close>.
\<close>

theorem EvalCmd_three_events_counterexample:
  "map (sent_line demo_lib) (filter is_reply
       (fst (EvalCmd demo_env (str ''fmt.Println(1)'') (replyFunc (str ''#go'') (str ''alice'')))))
     = [Some (str ''(alice) https://play.golang.org/p/Zzzzzzzzzzz (First line only. 3 events returned) : line1'')]
   \<and> \<not> sublist (str ''line1 (First line only. 3 events returned)'')
         (str ''(alice) https://play.golang.org/p/Zzzzzzzzzzz (First line only. 3 events returned) : line1'')"
proof -
  have "map (sent_line demo_lib) (filter is_reply
       (fst (EvalCmd demo_env (str ''fmt.Println(1)'') (replyFunc (str ''#go'') (str ''alice'')))))
     = [Some (str ''(alice) https://play.golang.org/p/Zzzzzzzzzzz (First line only. 3 events returned) : line1'')]"
  proof -
    have nonblank: "TrimSpace (str ''fmt.Println(1)'') \<noteq> []"
      by (simp add: lib_defs)
    have run: "runCode demo_env (builtUp (str ''fmt.Println(1)'')) True True True =
      ([Call_imports_Process (builtUp (str ''fmt.Println(1)'')) False,
        Call_Share (builtUp (str ''fmt.Println(1)'')),
        Call_Compile (builtUp (str ''fmt.Println(1)''))],
       Some \<lparr>Errors = [], Events =
         [\<lparr>Message = str ''line1'' @ [10] @ str ''hidden'', Kind = str ''stdout'', Delay = 0\<rparr>,
          \<lparr>Message = str ''e2'', Kind = str ''stdout'', Delay = 0\<rparr>,
          \<lparr>Message = str ''e3'', Kind = str ''stdout'', Delay = 0\<rparr>]\<rparr>,
       str ''https://play.golang.org/p/Zzzzzzzzzzz'', None)"
      by (simp add: runCode_def format_source_def demo_env_def)
    have tab: "IsPrint_table demo_env = (\<lambda>r. True)"
      by (simp add: demo_env_def)
    have "EvalCmd demo_env (str ''fmt.Println(1)'') (replyFunc (str ''#go'') (str ''alice'')) =
      ([Call_imports_Process (builtUp (str ''fmt.Println(1)'')) False,
        Call_Share (builtUp (str ''fmt.Println(1)'')),
        Call_Compile (builtUp (str ''fmt.Println(1)'')),
        Privmsgf (str ''#go'') (str ''(alice) %s%s : %s'')
          [StringArg (str ''https://play.golang.org/p/Zzzzzzzzzzz''),
           StringArg (str '' (First line only. 3 events returned)''),
           StringArg (str ''line1'')]],
       Returned)"
      using nonblank
      by (simp add: EvalCmd_def run tab replyFunc_def fmt_d_3)
        (simp add: ExtractFirstLine_def lib_defs)
    then show ?thesis
      by (simp add: str_def Sprintf_def transmit_def demo_lib_def bad_char_def)
  qed
  moreover have "\<not> sublist (str ''line1 (First line only. 3 events returned)'')
         (str ''(alice) https://play.golang.org/p/Zzzzzzzzzzz (First line only. 3 events returned) : line1'')"
    by (simp add: str_def sublist_code)
  ultimately show ?thesis by simp
qed

text \<open>
  C5, amended. For a response without compile errors and with the three events whose
  first message is \<^verbatim>\<open>line1\<close>, a newline and \<^verbatim>\<open>hidden\<close>, \<^verbatim>\<open>EvalCmd\<close> returns after
  one reply, and for a nickname without a percent sign the text of the reply is the
  nickname in parentheses, the share link or the placeholder
  \<^verbatim>\<open>Unable to create share link\<close>, the note \<^verbatim>\<open>(First line only. 3 events returned)\<close>, a
  colon, and the first line \<^verbatim>\<open>line1\<close>; the line sent is what the connection makes of
  this text.
\<close>

theorem EvalCmd_three_events:
  assumes "TrimSpace args \<noteq> []"
    and "imports_Process w (builtUp args) False = Inr code"
    and "goplay_Compile w code = Inr \<lparr>Errors = [], Events = [e1, e2, e3]\<rparr>"
    and "Message e1 = str ''line1'' @ [10] @ str ''hidden''"
    and "37 \<notin> set sourceNick"
  shows "snd (EvalCmd w args (replyFunc replyTarget sourceNick)) = Returned
    \<and> map (privmsg_text L)
        (filter is_reply (fst (EvalCmd w args (replyFunc replyTarget sourceNick)))) =
        [Some (str ''('' @ sourceNick @ str '') ''
               @ (case goplay_Share w code of
                    Inr link \<Rightarrow> link
                  | Inl err \<Rightarrow> str ''Unable to create share link'')
               @ str '' (First line only. 3 events returned) : line1'')]
    \<and> map (sent_line L)
        (filter is_reply (fst (EvalCmd w args (replyFunc replyTarget sourceNick)))) =
        [case conn_room L replyTarget
                (str ''('' @ sourceNick @ str '') ''
                 @ (case goplay_Share w code of
                      Inr link \<Rightarrow> link
                    | Inl err \<Rightarrow> str ''Unable to create share link'')
                 @ str '' (First line only. 3 events returned) : line1'') of
           None \<Rightarrow> None
         | Some k \<Rightarrow>
             if list_ex (\<lambda>c. c = 0 \<or> c = 10 \<or> c = 13)
                  (take k
                     (str ''('' @ sourceNick @ str '') ''
                      @ (case goplay_Share w code of
                           Inr link \<Rightarrow> link
                         | Inl err \<Rightarrow> str ''Unable to create share link'')
                      @ str '' (First line only. 3 events returned) : line1''))
             then None
             else Some
                    (take k
                       (str ''('' @ sourceNick @ str '') ''
                        @ (case goplay_Share w code of
                             Inr link \<Rightarrow> link
                           | Inl err \<Rightarrow> str ''Unable to create share link'')
                        @ str '' (First line only. 3 events returned) : line1''))]"
proof -
  let ?share = "case goplay_Share w code of
                  Inr link \<Rightarrow> link | Inl err \<Rightarrow> str ''Unable to create share link''"
  define T where "T = str ''('' @ sourceNick @ str '') '' @ ?share
                      @ str '' (First line only. 3 events returned) : line1''"
  let ?reply = "Privmsgf replyTarget (str ''('' @ sourceNick @ str '') '' @ str ''%s%s : %s'')
       [StringArg ?share, StringArg (str '' (First line only. 3 events returned)''),
        StringArg (str ''line1'')]"
  have run: "runCode w (builtUp args) True True True =
      ([Call_imports_Process (builtUp args) False, Call_Share code, Call_Compile code],
       Some \<lparr>Errors = [], Events = [e1, e2, e3]\<rparr>, ?share, None)"
    using assms(2,3) by (simp add: runCode_def format_source_def)
  have extra: "str '' (First line only. '' @ fmt_d (int (length [e1, e2, e3])) @ str '' events returned)''
      = str '' (First line only. 3 events returned)''"
    by (simp add: fmt_d_3) (simp add: str_def)
  have eval: "EvalCmd w args (replyFunc replyTarget sourceNick) =
      ([Call_imports_Process (builtUp args) False, Call_Share code, Call_Compile code, ?reply],
       Returned)"
    using assms(1,4) extra
    by (simp add: EvalCmd_def run replyFunc_def ExtractFirstLine_line1 del: append.simps)
  have nick: "37 \<notin> set (str ''('' @ sourceNick @ str '') '')"
    using assms(5) by (simp add: str_def)
  have "Sprintf L (str ''%s%s : %s'') [StringArg ?share, StringArg (str '' (First line only. 3 events returned)''),
        StringArg (str ''line1'')] = ?share @ str '' (First line only. 3 events returned) : line1''"
    by (simp add: str_def Sprintf_def)
  then have rendered: "Sprintf L (str ''('' @ sourceNick @ str '') '' @ str ''%s%s : %s'')
        [StringArg ?share, StringArg (str '' (First line only. 3 events returned)''),
        StringArg (str ''line1'')] = T"
    using Sprintf_literal [OF nick, of L "str ''%s%s : %s''"]
    by (simp add: T_def)
  have sent: "transmit L replyTarget T =
      (case conn_room L replyTarget T of
         None \<Rightarrow> None
       | Some k \<Rightarrow>
           if list_ex (\<lambda>c. c = 0 \<or> c = 10 \<or> c = 13) (take k T) then None
           else Some (take k T))"
    by (cases "conn_room L replyTarget T")
      (simp_all add: transmit_def bad_char_def [abs_def])
  have "snd (EvalCmd w args (replyFunc replyTarget sourceNick)) = Returned
    \<and> map (privmsg_text L)
        (filter is_reply (fst (EvalCmd w args (replyFunc replyTarget sourceNick)))) = [Some T]
    \<and> map (sent_line L)
        (filter is_reply (fst (EvalCmd w args (replyFunc replyTarget sourceNick)))) =
        [case conn_room L replyTarget T of
           None \<Rightarrow> None
         | Some k \<Rightarrow>
             if list_ex (\<lambda>c. c = 0 \<or> c = 10 \<or> c = 13) (take k T) then None
             else Some (take k T)]"
    using sent by (simp add: eval rendered)
  then show ?thesis
    unfolding T_def .
qed

theorem EvalCmd_three_events_witness:
  "TrimSpace (str ''fmt.Println(1)'') \<noteq> []
   \<and> 37 \<notin> set (str ''alice'')
   \<and> snd (EvalCmd demo_env (str ''fmt.Println(1)'') (replyFunc (str ''#go'') (str ''alice''))) = Returned
   \<and> map (privmsg_text demo_lib) (filter is_reply
       (fst (EvalCmd demo_env (str ''fmt.Println(1)'') (replyFunc (str ''#go'') (str ''alice'')))))
     = [Some (str ''(alice) https://play.golang.org/p/Zzzzzzzzzzz (First line only. 3 events returned) : line1'')]
   \<and> map (sent_line demo_lib) (filter is_reply
       (fst (EvalCmd demo_env (str ''fmt.Println(1)'') (replyFunc (str ''#go'') (str ''alice'')))))
     = [Some (str ''(alice) https://play.golang.org/p/Zzzzzzzzzzz (First line only. 3 events returned) : line1'')]"
proof -
  have a: "TrimSpace (str ''fmt.Println(1)'') \<noteq> []"
    by (simp add: lib_defs)
  have b: "imports_Process demo_env (builtUp (str ''fmt.Println(1)'')) False
             = Inr (builtUp (str ''fmt.Println(1)''))"
    by (simp add: demo_env_def)
  have c: "goplay_Compile demo_env (builtUp (str ''fmt.Println(1)'')) =
      Inr \<lparr>Errors = [], Events =
         [\<lparr>Message = str ''line1'' @ [10] @ str ''hidden'', Kind = str ''stdout'', Delay = 0\<rparr>,
          \<lparr>Message = str ''e2'', Kind = str ''stdout'', Delay = 0\<rparr>,
          \<lparr>Message = str ''e3'', Kind = str ''stdout'', Delay = 0\<rparr>]\<rparr>"
    by (simp add: demo_env_def)
  have d: "Message \<lparr>Message = str ''line1'' @ [10] @ str ''hidden'', Kind = str ''stdout'', Delay = 0\<rparr>
             = str ''line1'' @ [10] @ str ''hidden''"
    by simp
  have e: "37 \<notin> set (str ''alice'')"
    by (simp add: str_def)
  have s: "goplay_Share demo_env (builtUp (str ''fmt.Println(1)''))
             = Inr (str ''https://play.golang.org/p/Zzzzzzzzzzz'')"
    by (simp add: demo_env_def)
  have T: "str ''('' @ str ''alice'' @ str '') ''
      @ (case goplay_Share demo_env (builtUp (str ''fmt.Println(1)'')) of
           Inr link \<Rightarrow> link
         | Inl err \<Rightarrow> str ''Unable to create share link'')
      @ str '' (First line only. 3 events returned) : line1''
    = str ''(alice) https://play.golang.org/p/Zzzzzzzzzzz (First line only. 3 events returned) : line1''"
    by (simp add: s) (simp add: str_def)
  have room: "conn_room demo_lib (str ''#go'') X = Some (length X)" for X
    by (simp add: demo_lib_def)
  have ok: "\<not> list_ex (\<lambda>c. c = 0 \<or> c = 10 \<or> c = 13)
      (str ''(alice) https://play.golang.org/p/Zzzzzzzzzzz (First line only. 3 events returned) : line1'')"
    by (simp add: str_def)
  show ?thesis
    using a e EvalCmd_three_events [OF a b c d e, where replyTarget = "str ''#go''" and L = demo_lib]
    unfolding T by (simp add: room ok)
qed

end
